theory Spec2Isabelle
  imports Main "HOL-Library.Finite_Map" "HOL-Library.Word"
begin

section \<open>Shapes, ports and nodes\<close>

text \<open>
  Shape inference of the three embedding-bag operations of the Model Optimizer
  (\<^verbatim>\<open>extensions/ops/embedding_bag.py\<close>).

  A shape is a one-dimensional masked array of type int64. An entry is either a
  plain integer or masked, the marker of a dimension that is not known yet.
  Slicing \<^verbatim>\<open>s[:1]\<close> and \<^verbatim>\<open>s[1:]\<close> keeps the entries with their masks, so it is
  \<^const>\<open>take\<close> and \<^const>\<open>drop\<close> on lists of dimensions.
\<close>

datatype dim = Known int | Unknown

type_synonym shape = "dim list"

text \<open>
  The arrays that \<^verbatim>\<open>np.ma.concatenate\<close> builds here have type int64 or float64.
  Every float64 entry that occurs is the conversion of an integer, so an entry of
  either type is an integer, masked or not.
\<close>

datatype dtype = int64 | float64

datatype masked_array = Masked_array dtype "dim list"

text \<open>
  The value of a constant, as far as \<^verbatim>\<open>infer\<close> can tell constants apart: a scalar
  (an array of rank 0) of a signed integer type, given by its value in int64; a
  scalar of type uint64; an array of rank 1 or more. An unsigned scalar of at most
  32 bits behaves as its value in int64. Constants of a floating-point type are
  not represented.
\<close>

datatype const_value = Scalar_int64 "64 word" | Scalar_uint64 "64 word" | Tensor "int list"

text \<open>
  Modelled from the spec: the classes \<^verbatim>\<open>Port\<close> and \<^verbatim>\<open>Node\<close> of \<^verbatim>\<open>mo.graph.graph\<close> are
  not among the sources. A port is the snapshot of the specification, with what
  \<^verbatim>\<open>infer\<close> reads of it: \<^verbatim>\<open>port.disconnected()\<close>, the shape attribute of its data
  node (\<^verbatim>\<open>None\<close> while the producer has no shape) and \<^verbatim>\<open>port.data.get_value()\<close>
  (\<^verbatim>\<open>None\<close> unless the producer is a folded constant).
\<close>

record port =
  disconnected :: bool
  data_shape :: "shape option"
  get_value :: "const_value option"

text \<open>
  Modelled from the spec: a node is its identifier, its optional \<^verbatim>\<open>name\<close>
  attribute, the dictionary \<^verbatim>\<open>node.in_ports()\<close> from port index to port, and the
  shape held by its single output port.
\<close>

record node =
  node_id :: string
  name_attr :: "string option"
  in_ports :: "(nat, port) fmap"
  out_shape :: "shape option"

section \<open>Exceptions\<close>

text \<open>
  Each \<^verbatim>\<open>assert\<close> of the source is a constructor, named after the kind of
  error it reports and carrying the arguments of its message:
  \<^item> \<open>MissingRequiredInput op k name ports\<close>: ``\<open>op\<close> should have at least \<open>k\<close>
    connected input port, but it doesn't for node: \<open>name\<close>. Ports: \<open>ports\<close>'';
  \<^item> \<open>RankTooLow op name\<close>: ``\<open>op\<close> should have at least 2D weights for node:
    \<open>name\<close>'';
  \<^item> \<open>InvalidOffsetsRank name\<close>: ``Rank of the offsets in
    EmbeddingBagOffsetsSum should be equal to 1 for node: \<open>name\<close>'';
  \<^item> \<open>ShapeMismatch name\<close>: ``Both indices and segment_ids should have the same
    shape for node: \<open>name\<close>'';
  \<^item> \<open>RequiresConstant name\<close>: ``EmbeddingSegmentsSum should have a constant
    num_segments provided, but it doesn't for node: \<open>name\<close>''.
\<close>

datatype assertion =
    MissingRequiredInput string nat string "nat fset"
  | RankTooLow string string
  | InvalidOffsetsRank string
  | ShapeMismatch string
  | RequiresConstant string

text \<open>
  \<open>TypeError\<close> is what Python raises for \<^verbatim>\<open>len(None)\<close> and \<^verbatim>\<open>None[:1]\<close>, \<open>ValueError\<close>
  what \<^verbatim>\<open>np.concatenate\<close> raises for arrays of different ranks. \<open>Error idx\<close> stands
  for the failure of \<^verbatim>\<open>node.in_port(idx)\<close> on an index that is not a key of
  \<^verbatim>\<open>node.in_ports()\<close>.
\<close>

datatype error = AssertionError assertion | TypeError | ValueError | Error nat

section \<open>Conversions between int64 and float64\<close>

text \<open>
  The number of binary digits of a positive integer, and the integer that the
  nearest float64 holds: 53 significant digits, a tie going to the even
  neighbour.
\<close>

function bit_length :: "int \<Rightarrow> nat" where
  "bit_length m = (if m \<le> 0 then 0 else Suc (bit_length (m div 2)))"
  by pat_completeness auto
termination
  by (relation "measure nat") auto

declare bit_length.simps [simp del]

definition round_float64 :: "int \<Rightarrow> int" where
  "round_float64 m =
     (if m < 2 ^ 53 then m
      else let e = bit_length m - 53;
               q = m div 2 ^ e;
               r = m mod 2 ^ e;
               h = 2 ^ (e - 1)
           in (if h < r \<or> (r = h \<and> odd q) then q + 1 else q) * 2 ^ e)"

definition to_float64 :: "int \<Rightarrow> int" where
  "to_float64 i = (if i < 0 then - round_float64 (- i) else round_float64 i)"

text \<open>
  \<^verbatim>\<open>astype(np.int64)\<close> on a float64 that holds an integer: the integer when int64
  can hold it, and the least int64 otherwise (the result of the conversion
  instruction of x86-64).
\<close>

definition astype_int64 :: "int \<Rightarrow> int" where
  "astype_int64 f = (if - (2 ^ 63) \<le> f \<and> f < 2 ^ 63 then f else - (2 ^ 63))"

section \<open>Shape arrays\<close>

text \<open>
  Modelled from the spec: \<^verbatim>\<open>shape_array\<close> of \<^verbatim>\<open>mo.front.common.partial_infer.utils\<close>
  and \<^verbatim>\<open>Port.set_shape\<close> are not among the sources. \<^verbatim>\<open>shape_array(a)\<close> is
  \<^verbatim>\<open>np.ma.masked_equal(a, dynamic_dimension_value).astype(np.int64)\<close>: it masks the
  entries equal to the integer that stands for a dynamic dimension and converts
  the others to int64. \<^verbatim>\<open>set_shape\<close> stores \<^verbatim>\<open>shape_array\<close> of its argument.
\<close>

definition dynamic_dimension_value :: int where
  "dynamic_dimension_value = - 1000000007"

definition shape_array :: "masked_array \<Rightarrow> shape" where
  "shape_array a =
     (case a of Masked_array t xs \<Rightarrow>
        map (\<lambda>d. case d of
                   Unknown \<Rightarrow> Unknown
                 | Known v \<Rightarrow>
                     if v = dynamic_dimension_value then Unknown
                     else Known (case t of int64 \<Rightarrow> v | float64 \<Rightarrow> astype_int64 v)) xs)"

text \<open>
  A shape attribute is only ever written by \<^verbatim>\<open>set_shape\<close>, so what \<^verbatim>\<open>get_shape\<close>
  returns is a value of \<^verbatim>\<open>shape_array\<close>: an int64 array with no unmasked entry
  equal to \<^const>\<open>dynamic_dimension_value\<close>. \<^verbatim>\<open>shape_array\<close> leaves such an array as it
  is, and reading applies it to whatever the record holds.
\<close>

definition get_shape :: "port \<Rightarrow> shape option" where
  \<comment> \<open>\<^verbatim>\<open>port.data.get_shape()\<close>\<close>
  "get_shape p = map_option (\<lambda>s. shape_array (Masked_array int64 s)) (data_shape p)"

definition set_shape :: "node \<Rightarrow> masked_array \<Rightarrow> node" where
  \<comment> \<open>\<^verbatim>\<open>node.out_port(0).data.set_shape(a)\<close>\<close>
  "set_shape node a = node\<lparr>out_shape := Some (shape_array a)\<rparr>"

text \<open>
  \<^verbatim>\<open>np.ma.concatenate\<close> of two shapes is an int64 array. With the one-entry list
  \<^verbatim>\<open>[num_segments]\<close> in front of a shape it depends on the constant:
  \<^item> a scalar of a signed integer type gives an int64 array;
  \<^item> a scalar of type uint64 gives a float64 array, every entry converted;
  \<^item> an array of rank 1 or more makes the first operand an array of rank 2 or
    more, which cannot be concatenated with a shape.
\<close>

definition concatenate_shapes :: "shape \<Rightarrow> shape \<Rightarrow> masked_array" where
  "concatenate_shapes a b = Masked_array int64 (a @ b)"

definition concatenate_constant :: "const_value \<Rightarrow> shape \<Rightarrow> error + masked_array" where
  "concatenate_constant c b =
     (case c of
        Scalar_int64 w \<Rightarrow> Inr (Masked_array int64 ([Known (sint w)] @ b))
      | Scalar_uint64 w \<Rightarrow>
          Inr (Masked_array float64
                 (map (\<lambda>d. case d of Unknown \<Rightarrow> Unknown | Known v \<Rightarrow> Known (to_float64 v))
                    ([Known (uint w)] @ b)))
      | Tensor vs \<Rightarrow> Inl ValueError)"

section \<open>Node access\<close>

definition soft_get_name :: "node \<Rightarrow> string" where
  \<comment> \<open>\<^verbatim>\<open>node.soft_get('name', node.id)\<close>\<close>
  "soft_get_name node = (case name_attr node of None \<Rightarrow> node_id node | Some n \<Rightarrow> n)"

definition is_connected :: "node \<Rightarrow> nat \<Rightarrow> bool" where
  \<comment> \<open>\<open>idx\<close> is a key of \<^verbatim>\<open>node.in_ports()\<close> and \<^verbatim>\<open>not port.disconnected()\<close>\<close>
  "is_connected node idx =
     (case fmlookup (in_ports node) idx of None \<Rightarrow> False | Some port \<Rightarrow> \<not> disconnected port)"

definition connected_in_ports :: "node \<Rightarrow> (nat, port) fmap" where
  \<comment> \<open>\<^verbatim>\<open>{idx: port for idx, port in node.in_ports().items() if not port.disconnected()}\<close>\<close>
  "connected_in_ports node = fmfilter (is_connected node) (in_ports node)"

definition ports_connected :: "(nat, port) fmap \<Rightarrow> nat \<Rightarrow> nat list \<Rightarrow> bool" where
  \<comment> \<open>\<^verbatim>\<open>len(connected_in_ports) >= k and all(p in connected_in_ports for p in ps)\<close>\<close>
  "ports_connected connected k ps =
     (k \<le> fcard (fmdom connected) \<and> list_all (\<lambda>p. p |\<in>| fmdom connected) ps)"

definition in_port :: "node \<Rightarrow> nat \<Rightarrow> error + port" where
  \<comment> \<open>\<^verbatim>\<open>node.in_port(idx)\<close>\<close>
  "in_port node idx =
     (case fmlookup (in_ports node) idx of None \<Rightarrow> Inl (Error idx) | Some port \<Rightarrow> Inr port)"

section \<open>The three inference functions\<close>

text \<open>
  A result \<open>Inl e\<close> is the exception \<open>e\<close>: the function has not written, and the
  node is as it was. A result \<open>Inr node'\<close> is the node after \<^verbatim>\<open>set_shape\<close>.
\<close>

definition EmbeddingBagOffsetsSum_infer :: "node \<Rightarrow> error + node" where
  "EmbeddingBagOffsetsSum_infer node =
     (let name = soft_get_name node;
          connected = connected_in_ports node
      in if \<not> ports_connected connected 3 [0, 1, 2]
         then Inl (AssertionError
                (MissingRequiredInput ''EmbeddingBagOffsetsSum'' 3 name (fmdom connected)))
         else (case in_port node 0 of Inl e \<Rightarrow> Inl e | Inr port0 \<Rightarrow>
           (case get_shape port0 of None \<Rightarrow> Inl TypeError | Some weights_shape \<Rightarrow>
              if \<not> (2 \<le> length weights_shape)
              then Inl (AssertionError (RankTooLow ''EmbeddingBagOffsetsSum'' name))
              else (case in_port node 2 of Inl e \<Rightarrow> Inl e | Inr port2 \<Rightarrow>
                (case get_shape port2 of
                   None \<Rightarrow> Inl (AssertionError (InvalidOffsetsRank name))
                 | Some offsets_shape \<Rightarrow>
                     if \<not> (length offsets_shape = 1)
                     then Inl (AssertionError (InvalidOffsetsRank name))
                     else Inr (set_shape node
                                 (concatenate_shapes (take 1 offsets_shape)
                                    (drop 1 weights_shape))))))))"

definition EmbeddingBagPackedSum_infer :: "node \<Rightarrow> error + node" where
  "EmbeddingBagPackedSum_infer node =
     (let name = soft_get_name node;
          connected = connected_in_ports node
      in if \<not> ports_connected connected 2 [0, 1]
         then Inl (AssertionError
                (MissingRequiredInput ''EmbeddingBagPackedSum'' 2 name (fmdom connected)))
         else (case in_port node 0 of Inl e \<Rightarrow> Inl e | Inr port0 \<Rightarrow>
           (case get_shape port0 of None \<Rightarrow> Inl TypeError | Some weights_shape \<Rightarrow>
              if \<not> (2 \<le> length weights_shape)
              then Inl (AssertionError (RankTooLow ''EmbeddingBagPackedSum'' name))
              else (case in_port node 1 of Inl e \<Rightarrow> Inl e | Inr port1 \<Rightarrow>
                (case get_shape port1 of
                   None \<Rightarrow> Inl TypeError
                 | Some input_shape \<Rightarrow>
                     Inr (set_shape node
                            (concatenate_shapes (take 1 input_shape)
                               (drop 1 weights_shape))))))))"

text \<open>
  In the third assertion \<^verbatim>\<open>and\<close> evaluates from the left and stops at the first
  false operand, so \<^verbatim>\<open>len(segment_ids)\<close> is only taken when the indices have
  rank 1, and the two arrays are only compared when both have one entry. The
  comparison of two one-entry masked arrays is true when both entries are masked
  or both are the same integer: equality of \<^typ>\<open>dim\<close>.
\<close>

definition EmbeddingSegmentsSum_infer :: "node \<Rightarrow> error + node" where
  "EmbeddingSegmentsSum_infer node =
     (let name = soft_get_name node;
          connected = connected_in_ports node
      in if \<not> ports_connected connected 4 [0, 1, 2, 3]
         then Inl (AssertionError
                (MissingRequiredInput ''EmbeddingSegmentsSum'' 4 name (fmdom connected)))
         else (case in_port node 0 of Inl e \<Rightarrow> Inl e | Inr port0 \<Rightarrow>
           (case get_shape port0 of None \<Rightarrow> Inl TypeError | Some weights_shape \<Rightarrow>
              if \<not> (2 \<le> length weights_shape)
              then Inl (AssertionError (RankTooLow ''EmbeddingSegmentsSum'' name))
              else (case in_port node 1 of Inl e \<Rightarrow> Inl e | Inr port1 \<Rightarrow>
                (case in_port node 2 of Inl e \<Rightarrow> Inl e | Inr port2 \<Rightarrow>
                  (case get_shape port1 of None \<Rightarrow> Inl TypeError | Some indices_shape \<Rightarrow>
                     if \<not> (length indices_shape = 1)
                     then Inl (AssertionError (ShapeMismatch name))
                     else (case get_shape port2 of None \<Rightarrow> Inl TypeError | Some segment_ids \<Rightarrow>
                       if \<not> (length segment_ids = 1 \<and> indices_shape = segment_ids)
                       then Inl (AssertionError (ShapeMismatch name))
                       else (case in_port node 3 of Inl e \<Rightarrow> Inl e | Inr port3 \<Rightarrow>
                         (case get_value port3 of
                            None \<Rightarrow> Inl (AssertionError (RequiresConstant name))
                          | Some num_segments \<Rightarrow>
                              (case concatenate_constant num_segments (drop 1 weights_shape) of
                                 Inl e \<Rightarrow> Inl e
                               | Inr output_shape \<Rightarrow>
                                   Inr (set_shape node output_shape)))))))))))"

section \<open>Nodes for the examples\<close>

text \<open>
  \<open>data_port s v\<close> is a connected port whose producer has the shape attribute \<open>s\<close>
  and, when \<open>v\<close> is an integer, that integer as an int64 scalar for its value;
  \<open>const_port c\<close> is a connected port whose producer is the constant \<open>c\<close>;
  \<open>free_port\<close> is a port that exists and is disconnected; \<open>mk_node ps\<close> is a node
  named \<open>bag\<close> with the ports \<open>ps\<close> and no output shape yet.
\<close>

definition data_port :: "shape option \<Rightarrow> int option \<Rightarrow> port" where
  "data_port s v = \<lparr>disconnected = False, data_shape = s,
                    get_value = map_option (\<lambda>n. Scalar_int64 (word_of_int n)) v\<rparr>"

definition const_port :: "shape \<Rightarrow> const_value \<Rightarrow> port" where
  "const_port s c = \<lparr>disconnected = False, data_shape = Some s, get_value = Some c\<rparr>"

definition free_port :: port where
  "free_port = \<lparr>disconnected = True, data_shape = None, get_value = None\<rparr>"

definition mk_node :: "(nat \<times> port) list \<Rightarrow> node" where
  "mk_node ps = \<lparr>node_id = ''7'', name_attr = Some ''bag'', in_ports = fmap_of_list ps,
                 out_shape = None\<rparr>"

section \<open>Shapes that are read are left as they are when written\<close>

lemma shape_array_int64:
  "shape_array (Masked_array int64 s) =
     map (\<lambda>d. if d = Known dynamic_dimension_value then Unknown else d) s"
  by (auto simp: shape_array_def split: dim.splits)

lemma get_shape_normal:
  assumes "get_shape p = Some s"
  shows "Known dynamic_dimension_value \<notin> set s"
  using assms by (auto simp: get_shape_def shape_array_int64)

lemma shape_array_normal:
  assumes "Known dynamic_dimension_value \<notin> set s"
  shows "shape_array (Masked_array int64 s) = s"
  unfolding shape_array_int64 using assms by (induction s) auto

lemma set_shape_concatenate:
  assumes "get_shape p = Some a" and "get_shape q = Some b"
  shows "set_shape node (concatenate_shapes (take m a) (drop n b)) =
           node\<lparr>out_shape := Some (take m a @ drop n b)\<rparr>"
proof -
  have "Known dynamic_dimension_value \<notin> set (take m a @ drop n b)"
    using get_shape_normal [OF assms(1)] get_shape_normal [OF assms(2)]
    by (auto dest: in_set_takeD in_set_dropD)
  then show ?thesis
    by (simp add: set_shape_def concatenate_shapes_def shape_array_normal)
qed

lemma set_shape_concatenate_all:
  assumes "get_shape p = Some a" and "get_shape q = Some b"
  shows "set_shape node (concatenate_shapes a (drop n b)) =
           node\<lparr>out_shape := Some (a @ drop n b)\<rparr>"
  using set_shape_concatenate [OF assms, of node "length a" n] by simp

lemma concatenate_constant_error:
  "concatenate_constant c b = Inl e \<longleftrightarrow> (\<exists>vs. c = Tensor vs) \<and> e = ValueError"
  by (cases c) (auto simp: concatenate_constant_def)

text \<open>
  The array that \<^verbatim>\<open>[num_segments]\<close> and a shape make is stored with every masked
  entry of the shape still masked, one place further.
\<close>

lemma concatenate_constant_Unknown:
  assumes "concatenate_constant c b = Inr a" and "j < length b" and "b ! j = Unknown"
  shows "shape_array a ! Suc j = Unknown"
  using assms
  by (cases c) (auto simp: concatenate_constant_def shape_array_def)


section \<open>Connected ports\<close>

lemma connected_iff: "idx |\<in>| fmdom (connected_in_ports node) \<longleftrightarrow> is_connected node idx"
  by (auto simp: connected_in_ports_def is_connected_def fmlookup_dom_iff split: option.splits)

lemma is_connected_in_port:
  "is_connected node idx \<longleftrightarrow> (\<exists>p. in_port node idx = Inr p \<and> \<not> disconnected p)"
  by (auto simp: is_connected_def in_port_def split: option.splits)

lemma fcard_connected_ge:
  assumes "distinct idxs" and "list_all (is_connected node) idxs"
  shows "length idxs \<le> fcard (fmdom (connected_in_ports node))"
proof -
  have "fset_of_list idxs |\<subseteq>| fmdom (connected_in_ports node)"
    using assms(2) by (auto simp: fset_of_list_elem list_all_iff connected_iff)
  then have "fcard (fset_of_list idxs) \<le> fcard (fmdom (connected_in_ports node))"
    by (rule fcard_mono)
  moreover have "fcard (fset_of_list idxs) = length idxs"
    using assms(1) by (simp add: fcard.rep_eq fset_of_list.rep_eq distinct_card)
  ultimately show ?thesis by simp
qed

text \<open>The simplifier writes the port index 1 as \<open>Suc 0\<close>.\<close>

lemma offsets_ports_check:
  "ports_connected (connected_in_ports node) 3 [0, Suc 0, 2] =
   (is_connected node 0 \<and> is_connected node (Suc 0) \<and> is_connected node 2)"
  using fcard_connected_ge [of "[0, 1, 2]" node] by (auto simp: ports_connected_def connected_iff)

lemma packed_ports_check:
  "ports_connected (connected_in_ports node) 2 [0, Suc 0] =
   (is_connected node 0 \<and> is_connected node (Suc 0))"
  using fcard_connected_ge [of "[0, 1]" node] by (auto simp: ports_connected_def connected_iff)

lemma segments_ports_check:
  "ports_connected (connected_in_ports node) 4 [0, Suc 0, 2, 3] =
   (is_connected node 0 \<and> is_connected node (Suc 0) \<and> is_connected node 2 \<and> is_connected node 3)"
  using fcard_connected_ge [of "[0, 1, 2, 3]" node] by (auto simp: ports_connected_def connected_iff)

text \<open>Evaluation of the access functions on the example nodes.\<close>

lemma in_port_mk_node:
  "in_port (mk_node ps) idx = (case map_of ps idx of None \<Rightarrow> Inl (Error idx) | Some p \<Rightarrow> Inr p)"
  by (simp add: in_port_def mk_node_def fmlookup_of_list)

lemma is_connected_mk_node:
  "is_connected (mk_node ps) idx =
     (case map_of ps idx of None \<Rightarrow> False | Some p \<Rightarrow> \<not> disconnected p)"
  by (simp add: is_connected_def mk_node_def fmlookup_of_list)

lemma soft_get_name_mk_node: "soft_get_name (mk_node ps) = ''bag''"
  by (simp add: soft_get_name_def mk_node_def)

lemma connected_mk_node:
  "fmdom (connected_in_ports (mk_node ps)) =
     fset_of_list (filter (is_connected (mk_node ps)) (map fst ps))"
proof (rule fset_eqI)
  fix idx
  have "is_connected (mk_node ps) idx \<Longrightarrow> idx \<in> set (map fst ps)"
    using map_of_eq_None_iff [of ps idx]
    by (cases "map_of ps idx") (simp_all add: is_connected_mk_node)
  moreover have "idx |\<in>| fset_of_list (filter (is_connected (mk_node ps)) (map fst ps)) \<longleftrightarrow>
      is_connected (mk_node ps) idx \<and> idx \<in> set (map fst ps)"
    by (auto simp only: fset_of_list_elem set_filter mem_Collect_eq)
  ultimately show "idx |\<in>| fmdom (connected_in_ports (mk_node ps)) \<longleftrightarrow>
      idx |\<in>| fset_of_list (filter (is_connected (mk_node ps)) (map fst ps))"
    unfolding connected_iff by blast
qed

text \<open>What a successful inference has read and written.\<close>

lemma OffsetsSum_success:
  assumes "EmbeddingBagOffsetsSum_infer node = Inr node'"
  shows "\<exists>port0 port2 weights_shape offsets_shape.
           in_port node 0 = Inr port0 \<and> get_shape port0 = Some weights_shape \<and>
           2 \<le> length weights_shape \<and>
           in_port node 2 = Inr port2 \<and> get_shape port2 = Some offsets_shape \<and>
           length offsets_shape = 1 \<and>
           node' = node\<lparr>out_shape := Some (take 1 offsets_shape @ drop 1 weights_shape)\<rparr>"
  using assms
  by (auto simp: EmbeddingBagOffsetsSum_infer_def Let_def
        split: if_splits sum.splits option.splits
        intro: set_shape_concatenate set_shape_concatenate_all)

lemma PackedSum_success:
  assumes "EmbeddingBagPackedSum_infer node = Inr node'"
  shows "\<exists>port0 port1 weights_shape indices_shape.
           in_port node 0 = Inr port0 \<and> get_shape port0 = Some weights_shape \<and>
           2 \<le> length weights_shape \<and>
           in_port node 1 = Inr port1 \<and> get_shape port1 = Some indices_shape \<and>
           node' = node\<lparr>out_shape := Some (take 1 indices_shape @ drop 1 weights_shape)\<rparr>"
  using assms
  by (auto simp: EmbeddingBagPackedSum_infer_def Let_def
        split: if_splits sum.splits option.splits
        intro: set_shape_concatenate set_shape_concatenate_all)

lemma SegmentsSum_success:
  assumes "EmbeddingSegmentsSum_infer node = Inr node'"
  shows "\<exists>port0 port3 weights_shape num_segments output_shape.
           in_port node 0 = Inr port0 \<and> get_shape port0 = Some weights_shape \<and>
           2 \<le> length weights_shape \<and>
           in_port node 3 = Inr port3 \<and> get_value port3 = Some num_segments \<and>
           concatenate_constant num_segments (drop 1 weights_shape) = Inr output_shape \<and>
           node' = node\<lparr>out_shape := Some (shape_array output_shape)\<rparr>"
  using assms
  by (auto simp: EmbeddingSegmentsSum_infer_def Let_def set_shape_def
        split: if_splits sum.splits option.splits)

lemma nth_after_first:
  assumes "1 \<le> i" and "i < length ws"
  shows "(xs @ drop 1 ws) ! (length xs + (i - 1)) = ws ! i"
proof -
  have "(xs @ drop 1 ws) ! (length xs + (i - 1)) = drop 1 ws ! (i - 1)"
    by (rule nth_append_length_plus)
  also have "\<dots> = ws ! i"
    using assms by simp
  finally show ?thesis .
qed

lemmas example_simps =
  in_port_mk_node is_connected_mk_node soft_get_name_mk_node connected_mk_node
  data_port_def const_port_def free_port_def get_shape_def shape_array_int64
  concatenate_shapes_def dynamic_dimension_value_def

text \<open>
  After the first assertion every \<^verbatim>\<open>node.in_port(idx)\<close> of the three functions is on a
  connected port, so none of them ends in \<open>Error idx\<close>.
\<close>

lemma in_port_connected: "is_connected node idx \<Longrightarrow> in_port node idx \<noteq> Inl e"
  by (auto simp: is_connected_def in_port_def split: option.splits)

lemma infer_never_Error:
  "EmbeddingBagOffsetsSum_infer node \<noteq> Inl (Error idx)"
  "EmbeddingBagPackedSum_infer node \<noteq> Inl (Error idx)"
  "EmbeddingSegmentsSum_infer node \<noteq> Inl (Error idx)"
  by (auto simp: EmbeddingBagOffsetsSum_infer_def EmbeddingBagPackedSum_infer_def
        EmbeddingSegmentsSum_infer_def Let_def offsets_ports_check packed_ports_check
        segments_ports_check in_port_connected concatenate_constant_error
      split: sum.splits option.splits)

text \<open>With the mandatory ports connected, the first assertion holds.\<close>

lemma no_missing_input_when_connected:
  "is_connected node 0 \<and> is_connected node 1 \<and> is_connected node 2 \<Longrightarrow>
     EmbeddingBagOffsetsSum_infer node \<noteq> Inl (AssertionError (MissingRequiredInput op k n ps))"
  "is_connected node 0 \<and> is_connected node 1 \<Longrightarrow>
     EmbeddingBagPackedSum_infer node \<noteq> Inl (AssertionError (MissingRequiredInput op k n ps))"
  "is_connected node 0 \<and> is_connected node 1 \<and> is_connected node 2 \<and> is_connected node 3 \<Longrightarrow>
     EmbeddingSegmentsSum_infer node \<noteq> Inl (AssertionError (MissingRequiredInput op k n ps))"
  by (auto simp: EmbeddingBagOffsetsSum_infer_def EmbeddingBagPackedSum_infer_def
        EmbeddingSegmentsSum_infer_def Let_def offsets_ports_check packed_ports_check
        segments_ports_check in_port_connected concatenate_constant_error
      split: sum.splits option.splits)

section \<open>Output shapes\<close>

text \<open>
  Claim C1. On a valid input of \<open>EmbeddingBagOffsetsSum\<close> (ports 0, 1 and 2
  connected, a weights shape of rank at least 2, an offsets shape of rank 1) the
  output shape is the first dimension of the offsets followed by the dimensions of
  the weights after the first, and it has the rank of the weights. The witness is
  the scenario with weights \<open>[1000, 64]\<close> and offsets \<open>[7]\<close>, whose output is
  \<open>[7, 64]\<close>.
\<close>

theorem OffsetsSum_output_shape:
  assumes "is_connected node 0" and "is_connected node 1" and "is_connected node 2"
    and "in_port node 0 = Inr port0" and "get_shape port0 = Some weights_shape"
    and "2 \<le> length weights_shape"
    and "in_port node 2 = Inr port2" and "get_shape port2 = Some offsets_shape"
    and "length offsets_shape = 1"
  shows "EmbeddingBagOffsetsSum_infer node =
           Inr (node\<lparr>out_shape := Some (take 1 offsets_shape @ drop 1 weights_shape)\<rparr>)
         \<and> take 1 offsets_shape @ drop 1 weights_shape = offsets_shape ! 0 # drop 1 weights_shape
         \<and> length (take 1 offsets_shape @ drop 1 weights_shape) = length weights_shape"
proof -
  from assms(9) obtain d where os: "offsets_shape = [d]"
    by (cases offsets_shape) auto
  have "EmbeddingBagOffsetsSum_infer node =
          Inr (node\<lparr>out_shape := Some (take 1 offsets_shape @ drop 1 weights_shape)\<rparr>)"
    using assms set_shape_concatenate_all [OF assms(8) assms(5), of node 1]
    by (simp add: EmbeddingBagOffsetsSum_infer_def Let_def offsets_ports_check)
  moreover have "length (take 1 offsets_shape @ drop 1 weights_shape) = length weights_shape"
    using assms(6) os by simp
  ultimately show ?thesis using os by simp
qed

theorem OffsetsSum_output_shape_witness:
  "is_connected (mk_node [(0, data_port (Some [Known 1000, Known 64]) None),
                          (1, data_port (Some [Known 20]) None),
                          (2, data_port (Some [Known 7]) None)]) 2
   \<and> EmbeddingBagOffsetsSum_infer
       (mk_node [(0, data_port (Some [Known 1000, Known 64]) None),
                 (1, data_port (Some [Known 20]) None),
                 (2, data_port (Some [Known 7]) None)]) =
     Inr ((mk_node [(0, data_port (Some [Known 1000, Known 64]) None),
                    (1, data_port (Some [Known 20]) None),
                    (2, data_port (Some [Known 7]) None)])
            \<lparr>out_shape := Some [Known 7, Known 64]\<rparr>)"
  using OffsetsSum_output_shape
    [of "mk_node [(0, data_port (Some [Known 1000, Known 64]) None),
                  (1, data_port (Some [Known 20]) None),
                  (2, data_port (Some [Known 7]) None)]"
        "data_port (Some [Known 1000, Known 64]) None" "[Known 1000, Known 64]"
        "data_port (Some [Known 7]) None" "[Known 7]"]
  by (simp add: example_simps)

text \<open>
  Claim C2, as amended. On a valid input of \<open>EmbeddingBagPackedSum\<close> (ports 0 and 1
  connected, a weights shape of rank at least 2, an indices shape) the output shape
  is \<^verbatim>\<open>indices_shape[:1]\<close> followed by \<^verbatim>\<open>weights_shape[1:]\<close>. When the indices have
  rank at least 1, its first entry is the first dimension of the indices and the
  rest are the dimensions of the weights after the first. When the indices have
  rank 0, it is \<^verbatim>\<open>weights_shape[1:]\<close> alone.
\<close>

theorem PackedSum_output_shape:
  assumes "is_connected node 0" and "is_connected node 1"
    and "in_port node 0 = Inr port0" and "get_shape port0 = Some weights_shape"
    and "2 \<le> length weights_shape"
    and "in_port node 1 = Inr port1" and "get_shape port1 = Some indices_shape"
  shows "EmbeddingBagPackedSum_infer node =
           Inr (node\<lparr>out_shape := Some (take 1 indices_shape @ drop 1 weights_shape)\<rparr>)
         \<and> (1 \<le> length indices_shape \<longrightarrow>
              (take 1 indices_shape @ drop 1 weights_shape) ! 0 = indices_shape ! 0
              \<and> drop 1 (take 1 indices_shape @ drop 1 weights_shape) = drop 1 weights_shape)
         \<and> (length indices_shape = 0 \<longrightarrow>
              take 1 indices_shape @ drop 1 weights_shape = drop 1 weights_shape)"
proof -
  have "EmbeddingBagPackedSum_infer node =
          Inr (node\<lparr>out_shape := Some (take 1 indices_shape @ drop 1 weights_shape)\<rparr>)"
    using assms set_shape_concatenate [OF assms(7) assms(4), of node 1 1]
    by (simp add: EmbeddingBagPackedSum_infer_def Let_def packed_ports_check)
  moreover have "1 \<le> length indices_shape \<longrightarrow>
      (take 1 indices_shape @ drop 1 weights_shape) ! 0 = indices_shape ! 0
      \<and> drop 1 (take 1 indices_shape @ drop 1 weights_shape) = drop 1 weights_shape"
    by (cases indices_shape) auto
  ultimately show ?thesis by simp
qed

theorem PackedSum_output_shape_witness:
  "is_connected (mk_node [(0, data_port (Some [Known 1000, Known 64]) None),
                          (1, data_port (Some [Known 4, Known 3]) None)]) 1
   \<and> EmbeddingBagPackedSum_infer
       (mk_node [(0, data_port (Some [Known 1000, Known 64]) None),
                 (1, data_port (Some [Known 4, Known 3]) None)]) =
     Inr ((mk_node [(0, data_port (Some [Known 1000, Known 64]) None),
                    (1, data_port (Some [Known 4, Known 3]) None)])
            \<lparr>out_shape := Some [Known 4, Known 64]\<rparr>)"
  using PackedSum_output_shape
    [of "mk_node [(0, data_port (Some [Known 1000, Known 64]) None),
                  (1, data_port (Some [Known 4, Known 3]) None)]"
        "data_port (Some [Known 1000, Known 64]) None" "[Known 1000, Known 64]"
        "data_port (Some [Known 4, Known 3]) None" "[Known 4, Known 3]"]
  by (simp add: example_simps)

text \<open>
  Claim C2 as stated, with every indices shape among the valid inputs, fails on
  indices of rank 0: with weights \<open>[1000, 64]\<close> the output is \<open>[64]\<close>, whose
  entries after the first are not those of the weights after the first.
\<close>

theorem PackedSum_scalar_indices_counterexample:
  "is_connected (mk_node [(0, data_port (Some [Known 1000, Known 64]) None),
                          (1, data_port (Some []) None)]) 0
   \<and> is_connected (mk_node [(0, data_port (Some [Known 1000, Known 64]) None),
                            (1, data_port (Some []) None)]) 1
   \<and> EmbeddingBagPackedSum_infer
       (mk_node [(0, data_port (Some [Known 1000, Known 64]) None),
                 (1, data_port (Some []) None)]) =
     Inr ((mk_node [(0, data_port (Some [Known 1000, Known 64]) None),
                    (1, data_port (Some []) None)])
            \<lparr>out_shape := Some [Known 64]\<rparr>)
   \<and> drop 1 [Known 64] \<noteq> drop 1 [Known 1000, Known 64]"
  by (simp add: EmbeddingBagPackedSum_infer_def Let_def packed_ports_check set_shape_def
      example_simps)




section \<open>Unknown dimensions\<close>

text \<open>
  Claim C4. Whenever one of the three functions succeeds, every unknown dimension
  that goes into the output is unknown there: the first dimension of the offsets
  (of the indices for \<open>EmbeddingBagPackedSum\<close>) at position 0, and dimension \<open>i \<ge> 1\<close>
  of the weights at the position it is copied to, which is \<open>i\<close> itself unless the
  indices of \<open>EmbeddingBagPackedSum\<close> have rank 0.
\<close>

theorem unknown_dimensions_propagate:
  "(EmbeddingBagOffsetsSum_infer node = Inr node' \<longrightarrow>
      (\<exists>port0 port2 weights_shape offsets_shape out.
         in_port node 0 = Inr port0 \<and> get_shape port0 = Some weights_shape \<and>
         in_port node 2 = Inr port2 \<and> get_shape port2 = Some offsets_shape \<and>
         length offsets_shape = 1 \<and> out_shape node' = Some out \<and>
         (offsets_shape ! 0 = Unknown \<longrightarrow> out ! 0 = Unknown) \<and>
         (\<forall>i. 1 \<le> i \<and> i < length weights_shape \<and> weights_shape ! i = Unknown \<longrightarrow>
              out ! i = Unknown)))
   \<and> (EmbeddingBagPackedSum_infer node = Inr node' \<longrightarrow>
      (\<exists>port0 port1 weights_shape indices_shape out.
         in_port node 0 = Inr port0 \<and> get_shape port0 = Some weights_shape \<and>
         in_port node 1 = Inr port1 \<and> get_shape port1 = Some indices_shape \<and>
         out_shape node' = Some out \<and>
         (1 \<le> length indices_shape \<and> indices_shape ! 0 = Unknown \<longrightarrow> out ! 0 = Unknown) \<and>
         (\<forall>i. 1 \<le> i \<and> i < length weights_shape \<and> weights_shape ! i = Unknown \<longrightarrow>
              out ! (length (take 1 indices_shape) + (i - 1)) = Unknown)))
   \<and> (EmbeddingSegmentsSum_infer node = Inr node' \<longrightarrow>
      (\<exists>port0 weights_shape out.
         in_port node 0 = Inr port0 \<and> get_shape port0 = Some weights_shape \<and>
         out_shape node' = Some out \<and>
         (\<forall>i. 1 \<le> i \<and> i < length weights_shape \<and> weights_shape ! i = Unknown \<longrightarrow>
              out ! i = Unknown)))"
proof (intro conjI impI)
  assume "EmbeddingBagOffsetsSum_infer node = Inr node'"
  then obtain port0 port2 ws os where r:
    "in_port node 0 = Inr port0" "get_shape port0 = Some ws"
    "in_port node 2 = Inr port2" "get_shape port2 = Some os" "length os = 1"
    "node' = node\<lparr>out_shape := Some (take 1 os @ drop 1 ws)\<rparr>"
    using OffsetsSum_success by blast
  have "\<forall>i. 1 \<le> i \<and> i < length ws \<and> ws ! i = Unknown \<longrightarrow>
          (take 1 os @ drop 1 ws) ! i = Unknown"
    using nth_after_first [of _ ws "take 1 os"] r(5) by auto
  moreover have "(take 1 os @ drop 1 ws) ! 0 = os ! 0"
    using r(5) by (cases os) auto
  ultimately show "\<exists>port0 port2 weights_shape offsets_shape out.
         in_port node 0 = Inr port0 \<and> get_shape port0 = Some weights_shape \<and>
         in_port node 2 = Inr port2 \<and> get_shape port2 = Some offsets_shape \<and>
         length offsets_shape = 1 \<and> out_shape node' = Some out \<and>
         (offsets_shape ! 0 = Unknown \<longrightarrow> out ! 0 = Unknown) \<and>
         (\<forall>i. 1 \<le> i \<and> i < length weights_shape \<and> weights_shape ! i = Unknown \<longrightarrow>
              out ! i = Unknown)"
    using r by simp
next
  assume "EmbeddingBagPackedSum_infer node = Inr node'"
  then obtain port0 port1 ws ixs where r:
    "in_port node 0 = Inr port0" "get_shape port0 = Some ws"
    "in_port node 1 = Inr port1" "get_shape port1 = Some ixs"
    "node' = node\<lparr>out_shape := Some (take 1 ixs @ drop 1 ws)\<rparr>"
    using PackedSum_success by blast
  have "\<forall>i. 1 \<le> i \<and> i < length ws \<and> ws ! i = Unknown \<longrightarrow>
          (take 1 ixs @ drop 1 ws) ! (length (take 1 ixs) + (i - 1)) = Unknown"
    using nth_after_first [of _ ws "take 1 ixs"] by auto
  moreover have "1 \<le> length ixs \<longrightarrow> (take 1 ixs @ drop 1 ws) ! 0 = ixs ! 0"
    by (cases ixs) auto
  ultimately show "\<exists>port0 port1 weights_shape indices_shape out.
         in_port node 0 = Inr port0 \<and> get_shape port0 = Some weights_shape \<and>
         in_port node 1 = Inr port1 \<and> get_shape port1 = Some indices_shape \<and>
         out_shape node' = Some out \<and>
         (1 \<le> length indices_shape \<and> indices_shape ! 0 = Unknown \<longrightarrow> out ! 0 = Unknown) \<and>
         (\<forall>i. 1 \<le> i \<and> i < length weights_shape \<and> weights_shape ! i = Unknown \<longrightarrow>
              out ! (length (take 1 indices_shape) + (i - 1)) = Unknown)"
    using r by simp
next
  assume "EmbeddingSegmentsSum_infer node = Inr node'"
  then obtain port0 ws c a where r:
    "in_port node 0 = Inr port0" "get_shape port0 = Some ws"
    "concatenate_constant c (drop 1 ws) = Inr a"
    "node' = node\<lparr>out_shape := Some (shape_array a)\<rparr>"
    using SegmentsSum_success by blast
  have "shape_array a ! i = Unknown" if "1 \<le> i" "i < length ws" "ws ! i = Unknown" for i
  proof -
    have "shape_array a ! Suc (i - 1) = Unknown"
      using that by (intro concatenate_constant_Unknown [OF r(3)]) simp_all
    then show ?thesis using that(1) by simp
  qed
  then show "\<exists>port0 weights_shape out.
         in_port node 0 = Inr port0 \<and> get_shape port0 = Some weights_shape \<and>
         out_shape node' = Some out \<and>
         (\<forall>i. 1 \<le> i \<and> i < length weights_shape \<and> weights_shape ! i = Unknown \<longrightarrow>
              out ! i = Unknown)"
    using r by simp
qed

theorem unknown_dimensions_propagate_witness:
  "EmbeddingBagOffsetsSum_infer
       (mk_node [(0, data_port (Some [Known 1000, Unknown]) None),
                 (1, data_port (Some [Unknown]) None),
                 (2, data_port (Some [Unknown]) None)]) =
     Inr ((mk_node [(0, data_port (Some [Known 1000, Unknown]) None),
                    (1, data_port (Some [Unknown]) None),
                    (2, data_port (Some [Unknown]) None)])
            \<lparr>out_shape := Some [Unknown, Unknown]\<rparr>)
   \<and> EmbeddingBagPackedSum_infer
       (mk_node [(0, data_port (Some [Known 1000, Unknown]) None),
                 (1, data_port (Some [Unknown, Known 3]) None)]) =
     Inr ((mk_node [(0, data_port (Some [Known 1000, Unknown]) None),
                    (1, data_port (Some [Unknown, Known 3]) None)])
            \<lparr>out_shape := Some [Unknown, Unknown]\<rparr>)
   \<and> EmbeddingSegmentsSum_infer
       (mk_node [(0, data_port (Some [Known 1000, Unknown]) None),
                 (1, data_port (Some [Unknown]) None),
                 (2, data_port (Some [Unknown]) None),
                 (3, data_port (Some []) (Some 5))]) =
     Inr ((mk_node [(0, data_port (Some [Known 1000, Unknown]) None),
                    (1, data_port (Some [Unknown]) None),
                    (2, data_port (Some [Unknown]) None),
                    (3, data_port (Some []) (Some 5))])
            \<lparr>out_shape := Some [Known 5, Unknown]\<rparr>)"
  using unknown_dimensions_propagate
          [of "mk_node [(0, data_port (Some [Known 1000, Unknown]) None),
                 (1, data_port (Some [Unknown]) None),
                 (2, data_port (Some [Unknown]) None)]"]
        unknown_dimensions_propagate
          [of "mk_node [(0, data_port (Some [Known 1000, Unknown]) None),
                 (1, data_port (Some [Unknown, Known 3]) None)]"]
        unknown_dimensions_propagate
          [of "mk_node [(0, data_port (Some [Known 1000, Unknown]) None),
                 (1, data_port (Some [Unknown]) None),
                 (2, data_port (Some [Unknown]) None),
                 (3, data_port (Some []) (Some 5))]"]
  by (simp add: EmbeddingBagOffsetsSum_infer_def EmbeddingBagPackedSum_infer_def
      EmbeddingSegmentsSum_infer_def Let_def offsets_ports_check packed_ports_check
      segments_ports_check set_shape_def concatenate_constant_def example_simps)

section \<open>Failures\<close>

text \<open>
  Claim C5, as amended. The first assertion of each operation fails exactly when
  one of its mandatory ports (0, 1, 2 for \<open>EmbeddingBagOffsetsSum\<close>; 0, 1 for
  \<open>EmbeddingBagPackedSum\<close>; 0, 1, 2, 3 for \<open>EmbeddingSegmentsSum\<close>) is not connected:
  the result is then the error \<open>MissingRequiredInput\<close> of that operation, and no
  shape is written. The error names the operation, the number of its mandatory
  ports, the node and the set of the ports that are connected; it names neither
  the mandatory ports nor the missing ones.
\<close>

theorem missing_required_input:
  "(EmbeddingBagOffsetsSum_infer node =
        Inl (AssertionError (MissingRequiredInput ''EmbeddingBagOffsetsSum'' 3
               (soft_get_name node) (fmdom (connected_in_ports node))))
      \<longleftrightarrow> \<not> (is_connected node 0 \<and> is_connected node 1 \<and> is_connected node 2))
   \<and> (EmbeddingBagPackedSum_infer node =
        Inl (AssertionError (MissingRequiredInput ''EmbeddingBagPackedSum'' 2
               (soft_get_name node) (fmdom (connected_in_ports node))))
      \<longleftrightarrow> \<not> (is_connected node 0 \<and> is_connected node 1))
   \<and> (EmbeddingSegmentsSum_infer node =
        Inl (AssertionError (MissingRequiredInput ''EmbeddingSegmentsSum'' 4
               (soft_get_name node) (fmdom (connected_in_ports node))))
      \<longleftrightarrow> \<not> (is_connected node 0 \<and> is_connected node 1 \<and> is_connected node 2
            \<and> is_connected node 3))
   \<and> (\<forall>idx. idx |\<in>| fmdom (connected_in_ports node) \<longleftrightarrow> is_connected node idx)"
proof -
  have "\<not> (is_connected node 0 \<and> is_connected node 1 \<and> is_connected node 2) \<Longrightarrow>
      EmbeddingBagOffsetsSum_infer node =
        Inl (AssertionError (MissingRequiredInput ''EmbeddingBagOffsetsSum'' 3
               (soft_get_name node) (fmdom (connected_in_ports node))))"
    by (simp add: EmbeddingBagOffsetsSum_infer_def Let_def offsets_ports_check)
  moreover have "\<not> (is_connected node 0 \<and> is_connected node 1) \<Longrightarrow>
      EmbeddingBagPackedSum_infer node =
        Inl (AssertionError (MissingRequiredInput ''EmbeddingBagPackedSum'' 2
               (soft_get_name node) (fmdom (connected_in_ports node))))"
    by (simp add: EmbeddingBagPackedSum_infer_def Let_def packed_ports_check)
  moreover have "\<not> (is_connected node 0 \<and> is_connected node 1 \<and> is_connected node 2
            \<and> is_connected node 3) \<Longrightarrow>
      EmbeddingSegmentsSum_infer node =
        Inl (AssertionError (MissingRequiredInput ''EmbeddingSegmentsSum'' 4
               (soft_get_name node) (fmdom (connected_in_ports node))))"
    by (simp add: EmbeddingSegmentsSum_infer_def Let_def segments_ports_check)
  ultimately show ?thesis
    using no_missing_input_when_connected [of node] connected_iff [of _ node] by blast
qed

theorem missing_required_input_witness:
  "\<not> is_connected (mk_node [(0, data_port (Some [Known 1000, Known 64]) None),
                            (1, data_port (Some [Known 20]) None),
                            (2, free_port)]) 2
   \<and> EmbeddingBagOffsetsSum_infer
       (mk_node [(0, data_port (Some [Known 1000, Known 64]) None),
                 (1, data_port (Some [Known 20]) None),
                 (2, free_port)]) =
     Inl (AssertionError (MissingRequiredInput ''EmbeddingBagOffsetsSum'' 3 ''bag'' {|0, 1|}))
   \<and> \<not> is_connected (mk_node [(0, data_port (Some [Known 1000, Known 64]) None)]) 1
   \<and> EmbeddingBagPackedSum_infer
       (mk_node [(0, data_port (Some [Known 1000, Known 64]) None)]) =
     Inl (AssertionError (MissingRequiredInput ''EmbeddingBagPackedSum'' 2 ''bag'' {|0|}))
   \<and> \<not> is_connected (mk_node [(0, free_port),
                              (1, data_port (Some [Known 10]) None),
                              (2, data_port (Some [Known 10]) None),
                              (3, data_port (Some []) (Some 5))]) 0
   \<and> EmbeddingSegmentsSum_infer
       (mk_node [(0, free_port),
                 (1, data_port (Some [Known 10]) None),
                 (2, data_port (Some [Known 10]) None),
                 (3, data_port (Some []) (Some 5))]) =
     Inl (AssertionError (MissingRequiredInput ''EmbeddingSegmentsSum'' 4 ''bag'' {|1, 2, 3|}))"
  using missing_required_input
          [of "mk_node [(0, data_port (Some [Known 1000, Known 64]) None),
                 (1, data_port (Some [Known 20]) None),
                 (2, free_port)]"]
        missing_required_input
          [of "mk_node [(0, data_port (Some [Known 1000, Known 64]) None)]"]
        missing_required_input
          [of "mk_node [(0, free_port),
                 (1, data_port (Some [Known 10]) None),
                 (2, data_port (Some [Known 10]) None),
                 (3, data_port (Some []) (Some 5))]"]
  by (simp add: example_simps)

text \<open>
  Claim C5 as stated, with an error that names the set of mandatory ports, fails
  on \<open>EmbeddingBagOffsetsSum\<close> with port 1 disconnected and ports 0, 2, 3 and 4
  connected: the set in the error is \<open>{0, 2, 3, 4}\<close>, which is neither the mandatory
  set \<open>{0, 1, 2}\<close> nor the missing set \<open>{1}\<close>.
\<close>

theorem missing_required_input_counterexample:
  "EmbeddingBagOffsetsSum_infer
       (mk_node [(0, data_port (Some [Known 1000, Known 64]) None),
                 (1, free_port),
                 (2, data_port (Some [Known 7]) None),
                 (3, data_port (Some []) (Some 0)),
                 (4, data_port (Some [Known 20]) None)]) =
     Inl (AssertionError
            (MissingRequiredInput ''EmbeddingBagOffsetsSum'' 3 ''bag'' {|0, 2, 3, 4|}))
   \<and> {|0, 2, 3, 4|} \<noteq> {|0, 1, 2 :: nat|}
   \<and> {|0, 2, 3, 4|} \<noteq> {|1 :: nat|}"
proof -
  have "3 |\<in>| {|0, 2, 3, 4 :: nat|}" and "3 |\<notin>| {|0, 1, 2 :: nat|}" and "3 |\<notin>| {|1 :: nat|}"
    by simp_all
  then have "{|0, 2, 3, 4|} \<noteq> {|0, 1, 2 :: nat|}" and "{|0, 2, 3, 4|} \<noteq> {|1 :: nat|}"
    by metis+
  then show ?thesis
    by (simp add: EmbeddingBagOffsetsSum_infer_def Let_def offsets_ports_check example_simps)
qed

text \<open>
  Claim C6, as amended. For each of the three operations, when all its mandatory
  ports are connected and the weights shape is present with rank below 2, the
  assertion on the weights fails: the result is \<open>RankTooLow\<close> and no shape is
  written. The witness has the weights shape \<open>[1000]\<close>.
\<close>

theorem weights_rank_too_low:
  "(is_connected node 0 \<and> is_connected node 1 \<and> is_connected node 2 \<and>
    in_port node 0 = Inr port0 \<and> get_shape port0 = Some weights_shape \<and>
    length weights_shape < 2 \<longrightarrow>
      EmbeddingBagOffsetsSum_infer node =
        Inl (AssertionError (RankTooLow ''EmbeddingBagOffsetsSum'' (soft_get_name node))))
   \<and> (is_connected node 0 \<and> is_connected node 1 \<and>
    in_port node 0 = Inr port0 \<and> get_shape port0 = Some weights_shape \<and>
    length weights_shape < 2 \<longrightarrow>
      EmbeddingBagPackedSum_infer node =
        Inl (AssertionError (RankTooLow ''EmbeddingBagPackedSum'' (soft_get_name node))))
   \<and> (is_connected node 0 \<and> is_connected node 1 \<and> is_connected node 2 \<and>
    is_connected node 3 \<and>
    in_port node 0 = Inr port0 \<and> get_shape port0 = Some weights_shape \<and>
    length weights_shape < 2 \<longrightarrow>
      EmbeddingSegmentsSum_infer node =
        Inl (AssertionError (RankTooLow ''EmbeddingSegmentsSum'' (soft_get_name node))))"
  by (simp add: EmbeddingBagOffsetsSum_infer_def EmbeddingBagPackedSum_infer_def
      EmbeddingSegmentsSum_infer_def Let_def offsets_ports_check packed_ports_check
      segments_ports_check)

theorem weights_rank_too_low_witness:
  "EmbeddingBagOffsetsSum_infer
       (mk_node [(0, data_port (Some [Known 1000]) None),
                 (1, data_port (Some [Known 20]) None),
                 (2, data_port (Some [Known 7]) None)]) =
     Inl (AssertionError (RankTooLow ''EmbeddingBagOffsetsSum'' ''bag''))
   \<and> EmbeddingBagPackedSum_infer
       (mk_node [(0, data_port (Some [Known 1000]) None),
                 (1, data_port (Some [Known 4, Known 3]) None)]) =
     Inl (AssertionError (RankTooLow ''EmbeddingBagPackedSum'' ''bag''))
   \<and> EmbeddingSegmentsSum_infer
       (mk_node [(0, data_port (Some [Known 1000]) None),
                 (1, data_port (Some [Known 10]) None),
                 (2, data_port (Some [Known 10]) None),
                 (3, data_port (Some []) (Some 5))]) =
     Inl (AssertionError (RankTooLow ''EmbeddingSegmentsSum'' ''bag''))"
  using weights_rank_too_low
          [of "mk_node [(0, data_port (Some [Known 1000]) None),
                 (1, data_port (Some [Known 20]) None),
                 (2, data_port (Some [Known 7]) None)]"
              "data_port (Some [Known 1000]) None" "[Known 1000]"]
        weights_rank_too_low
          [of "mk_node [(0, data_port (Some [Known 1000]) None),
                 (1, data_port (Some [Known 4, Known 3]) None)]"
              "data_port (Some [Known 1000]) None" "[Known 1000]"]
        weights_rank_too_low
          [of "mk_node [(0, data_port (Some [Known 1000]) None),
                 (1, data_port (Some [Known 10]) None),
                 (2, data_port (Some [Known 10]) None),
                 (3, data_port (Some []) (Some 5))]"
              "data_port (Some [Known 1000]) None" "[Known 1000]"]
  by (simp add: example_simps)

text \<open>
  Claim C6 as stated, for every input whose weights shape has rank below 2, fails
  when a mandatory port is disconnected: with weights \<open>[1000]\<close> and port 2
  disconnected the connectivity assertion, which comes first, is the one to fail.
\<close>

theorem weights_rank_too_low_counterexample:
  "in_port (mk_node [(0, data_port (Some [Known 1000]) None),
                     (1, data_port (Some [Known 20]) None),
                     (2, free_port)]) 0 = Inr (data_port (Some [Known 1000]) None)
   \<and> get_shape (data_port (Some [Known 1000]) None) = Some [Known 1000]
   \<and> length [Known 1000] < 2
   \<and> EmbeddingBagOffsetsSum_infer
       (mk_node [(0, data_port (Some [Known 1000]) None),
                 (1, data_port (Some [Known 20]) None),
                 (2, free_port)]) =
     Inl (AssertionError (MissingRequiredInput ''EmbeddingBagOffsetsSum'' 3 ''bag'' {|0, 1|}))"
  by (simp add: EmbeddingBagOffsetsSum_infer_def Let_def offsets_ports_check example_simps)

text \<open>
  Claim C7, as amended. For \<open>EmbeddingSegmentsSum\<close>, when ports 0 to 3 are connected,
  the weights shape is present with rank at least 2, and the shapes of the indices
  and of the segment ids are both present, shapes that are not both of rank 1 and
  equal make the third assertion fail: the result is \<open>ShapeMismatch\<close>. The witness
  has the shapes \<open>[10]\<close> and \<open>[9]\<close>.
\<close>

theorem segments_shape_mismatch:
  assumes "is_connected node 0" and "is_connected node 1"
    and "is_connected node 2" and "is_connected node 3"
    and "in_port node 0 = Inr port0" and "get_shape port0 = Some weights_shape"
    and "2 \<le> length weights_shape"
    and "in_port node 1 = Inr port1" and "get_shape port1 = Some indices_shape"
    and "in_port node 2 = Inr port2" and "get_shape port2 = Some segment_ids"
    and "\<not> (length indices_shape = 1 \<and> length segment_ids = 1 \<and> indices_shape = segment_ids)"
  shows "EmbeddingSegmentsSum_infer node =
           Inl (AssertionError (ShapeMismatch (soft_get_name node)))"
  using assms
  by (auto simp: EmbeddingSegmentsSum_infer_def Let_def segments_ports_check)

theorem segments_shape_mismatch_witness:
  "\<not> (length [Known 10] = 1 \<and> length [Known 9] = 1 \<and> [Known 10] = [Known 9])
   \<and> EmbeddingSegmentsSum_infer
       (mk_node [(0, data_port (Some [Known 1000, Known 64]) None),
                 (1, data_port (Some [Known 10]) None),
                 (2, data_port (Some [Known 9]) None),
                 (3, data_port (Some []) (Some 5))]) =
     Inl (AssertionError (ShapeMismatch ''bag''))"
  using segments_shape_mismatch
          [of "mk_node [(0, data_port (Some [Known 1000, Known 64]) None),
                 (1, data_port (Some [Known 10]) None),
                 (2, data_port (Some [Known 9]) None),
                 (3, data_port (Some []) (Some 5))]"
              "data_port (Some [Known 1000, Known 64]) None" "[Known 1000, Known 64]"
              "data_port (Some [Known 10]) None" "[Known 10]"
              "data_port (Some [Known 9]) None" "[Known 9]"]
  by (simp add: example_simps)

text \<open>
  Claim C7 as stated, for every input whose indices and segment ids are not both
  of rank 1 with equal shapes, fails when another statement raises. With indices
  \<open>[10]\<close> and segment ids \<open>[9]\<close>: with port 3 disconnected the error is
  \<open>MissingRequiredInput\<close>, with weights \<open>[1000]\<close> it is \<open>RankTooLow\<close>, and with no
  weights shape it is a \<open>TypeError\<close>. With indices \<open>[10]\<close> and no shape for the
  segment ids, and with no shape for the indices, it is a \<open>TypeError\<close> too.
\<close>

theorem segments_shape_mismatch_counterexample:
  "EmbeddingSegmentsSum_infer
       (mk_node [(0, data_port (Some [Known 1000, Known 64]) None),
                 (1, data_port (Some [Known 10]) None),
                 (2, data_port (Some [Known 9]) None),
                 (3, free_port)]) =
     Inl (AssertionError (MissingRequiredInput ''EmbeddingSegmentsSum'' 4 ''bag'' {|0, 1, 2|}))
   \<and> EmbeddingSegmentsSum_infer
       (mk_node [(0, data_port (Some [Known 1000]) None),
                 (1, data_port (Some [Known 10]) None),
                 (2, data_port (Some [Known 9]) None),
                 (3, data_port (Some []) (Some 5))]) =
     Inl (AssertionError (RankTooLow ''EmbeddingSegmentsSum'' ''bag''))
   \<and> EmbeddingSegmentsSum_infer
       (mk_node [(0, data_port None None),
                 (1, data_port (Some [Known 10]) None),
                 (2, data_port (Some [Known 9]) None),
                 (3, data_port (Some []) (Some 5))]) =
     Inl TypeError
   \<and> EmbeddingSegmentsSum_infer
       (mk_node [(0, data_port (Some [Known 1000, Known 64]) None),
                 (1, data_port (Some [Known 10]) None),
                 (2, data_port None None),
                 (3, data_port (Some []) (Some 5))]) =
     Inl TypeError
   \<and> EmbeddingSegmentsSum_infer
       (mk_node [(0, data_port (Some [Known 1000, Known 64]) None),
                 (1, data_port None None),
                 (2, data_port (Some [Known 9]) None),
                 (3, data_port (Some []) (Some 5))]) =
     Inl TypeError"
  by (simp add: EmbeddingSegmentsSum_infer_def Let_def segments_ports_check example_simps)

text \<open>
  Claim C8, as amended. For \<open>EmbeddingSegmentsSum\<close>, when ports 0 to 3 are connected,
  the weights shape is present with rank at least 2 and the indices and segment
  ids have equal shapes of rank 1, a \<open>num_segments\<close> without a constant value makes
  the last assertion fail: the result is \<open>RequiresConstant\<close> and no shape is
  written. Whatever the other inputs are, with such a \<open>num_segments\<close> the function
  fails.
\<close>

theorem segments_requires_constant:
  "(is_connected node 0 \<and> is_connected node 1 \<and> is_connected node 2 \<and>
    is_connected node 3 \<and>
    in_port node 0 = Inr port0 \<and> get_shape port0 = Some weights_shape \<and>
    2 \<le> length weights_shape \<and>
    in_port node 1 = Inr port1 \<and> get_shape port1 = Some indices_shape \<and>
    in_port node 2 = Inr port2 \<and> get_shape port2 = Some segment_ids \<and>
    length indices_shape = 1 \<and> length segment_ids = 1 \<and> indices_shape = segment_ids \<and>
    in_port node 3 = Inr port3 \<and> get_value port3 = None \<longrightarrow>
      EmbeddingSegmentsSum_infer node =
        Inl (AssertionError (RequiresConstant (soft_get_name node))))
   \<and> (in_port node 3 = Inr port3 \<and> get_value port3 = None \<longrightarrow>
      (\<exists>e. EmbeddingSegmentsSum_infer node = Inl e))"
proof (intro conjI impI)
  assume "is_connected node 0 \<and> is_connected node 1 \<and> is_connected node 2 \<and>
    is_connected node 3 \<and>
    in_port node 0 = Inr port0 \<and> get_shape port0 = Some weights_shape \<and>
    2 \<le> length weights_shape \<and>
    in_port node 1 = Inr port1 \<and> get_shape port1 = Some indices_shape \<and>
    in_port node 2 = Inr port2 \<and> get_shape port2 = Some segment_ids \<and>
    length indices_shape = 1 \<and> length segment_ids = 1 \<and> indices_shape = segment_ids \<and>
    in_port node 3 = Inr port3 \<and> get_value port3 = None"
  then show "EmbeddingSegmentsSum_infer node =
        Inl (AssertionError (RequiresConstant (soft_get_name node)))"
    by (simp add: EmbeddingSegmentsSum_infer_def Let_def segments_ports_check)
next
  assume a: "in_port node 3 = Inr port3 \<and> get_value port3 = None"
  show "\<exists>e. EmbeddingSegmentsSum_infer node = Inl e"
  proof (cases "EmbeddingSegmentsSum_infer node")
    case (Inl e)
    then show ?thesis by blast
  next
    case (Inr node')
    then obtain p3 c where "in_port node 3 = Inr p3" "get_value p3 = Some c"
      using SegmentsSum_success by blast
    with a show ?thesis by simp
  qed
qed

theorem segments_requires_constant_witness:
  "get_value (data_port (Some []) None) = None
   \<and> EmbeddingSegmentsSum_infer
       (mk_node [(0, data_port (Some [Known 1000, Known 64]) None),
                 (1, data_port (Some [Known 10]) None),
                 (2, data_port (Some [Known 10]) None),
                 (3, data_port (Some []) None)]) =
     Inl (AssertionError (RequiresConstant ''bag''))"
  using segments_requires_constant
          [of "mk_node [(0, data_port (Some [Known 1000, Known 64]) None),
                 (1, data_port (Some [Known 10]) None),
                 (2, data_port (Some [Known 10]) None),
                 (3, data_port (Some []) None)]"
              "data_port (Some [Known 1000, Known 64]) None" "[Known 1000, Known 64]"
              "data_port (Some [Known 10]) None" "[Known 10]"
              "data_port (Some [Known 10]) None" "[Known 10]"
              "data_port (Some []) None"]
  by (simp add: example_simps)

text \<open>
  Claim C8 as stated, for every input whose \<open>num_segments\<close> has no constant value,
  fails when an earlier statement raises: the error is \<open>RankTooLow\<close> with weights
  \<open>[1000]\<close>, \<open>ShapeMismatch\<close> with indices \<open>[10]\<close> and segment ids \<open>[9]\<close>, a
  \<open>TypeError\<close> with no indices shape, and \<open>MissingRequiredInput\<close> with port 2
  disconnected.
\<close>

theorem segments_requires_constant_counterexample:
  "in_port (mk_node [(0, data_port (Some [Known 1000]) None),
                     (1, data_port (Some [Known 10]) None),
                     (2, data_port (Some [Known 10]) None),
                     (3, data_port (Some []) None)]) 3 = Inr (data_port (Some []) None)
   \<and> get_value (data_port (Some []) None) = None
   \<and> EmbeddingSegmentsSum_infer
       (mk_node [(0, data_port (Some [Known 1000]) None),
                 (1, data_port (Some [Known 10]) None),
                 (2, data_port (Some [Known 10]) None),
                 (3, data_port (Some []) None)]) =
     Inl (AssertionError (RankTooLow ''EmbeddingSegmentsSum'' ''bag''))
   \<and> EmbeddingSegmentsSum_infer
       (mk_node [(0, data_port (Some [Known 1000, Known 64]) None),
                 (1, data_port (Some [Known 10]) None),
                 (2, data_port (Some [Known 9]) None),
                 (3, data_port (Some []) None)]) =
     Inl (AssertionError (ShapeMismatch ''bag''))
   \<and> EmbeddingSegmentsSum_infer
       (mk_node [(0, data_port (Some [Known 1000, Known 64]) None),
                 (1, data_port None None),
                 (2, data_port (Some [Known 10]) None),
                 (3, data_port (Some []) None)]) =
     Inl TypeError
   \<and> EmbeddingSegmentsSum_infer
       (mk_node [(0, data_port (Some [Known 1000, Known 64]) None),
                 (1, data_port (Some [Known 10]) None),
                 (2, free_port),
                 (3, data_port (Some []) None)]) =
     Inl (AssertionError (MissingRequiredInput ''EmbeddingSegmentsSum'' 4 ''bag'' {|0, 1, 3|}))"
  by (simp add: EmbeddingSegmentsSum_infer_def Let_def segments_ports_check example_simps)

text \<open>
  Claim C9. For \<open>EmbeddingBagPackedSum\<close>, when ports 0 and 1 are connected and the
  weights shape is present with rank at least 2, every indices shape, of any rank,
  rank 0 included, leads to an output shape, and the function fails only when the
  indices shape is absent (with the \<open>TypeError\<close> of \<^verbatim>\<open>None[:1]\<close>). The witness has
  indices of rank 0 and of rank 3, and indices with no shape.
\<close>

theorem PackedSum_no_indices_rank_check:
  assumes "is_connected node 0" and "is_connected node 1"
    and "in_port node 0 = Inr port0" and "get_shape port0 = Some weights_shape"
    and "2 \<le> length weights_shape"
    and "in_port node 1 = Inr port1"
  shows "(\<forall>indices_shape. get_shape port1 = Some indices_shape \<longrightarrow>
            EmbeddingBagPackedSum_infer node =
              Inr (node\<lparr>out_shape := Some (take 1 indices_shape @ drop 1 weights_shape)\<rparr>))
         \<and> (get_shape port1 = None \<longrightarrow> EmbeddingBagPackedSum_infer node = Inl TypeError)
         \<and> ((\<exists>node'. EmbeddingBagPackedSum_infer node = Inr node') \<longleftrightarrow>
              get_shape port1 \<noteq> None)"
proof -
  have "EmbeddingBagPackedSum_infer node =
          (case get_shape port1 of
             None \<Rightarrow> Inl TypeError
           | Some input_shape \<Rightarrow>
               Inr (set_shape node
                      (concatenate_shapes (take 1 input_shape) (drop 1 weights_shape))))"
    using assms
    by (simp add: EmbeddingBagPackedSum_infer_def Let_def packed_ports_check)
  then show ?thesis
    using set_shape_concatenate [OF _ assms(4), of port1 _ node 1 1]
    by (auto split: option.splits)
qed

theorem PackedSum_no_indices_rank_check_witness:
  "EmbeddingBagPackedSum_infer
       (mk_node [(0, data_port (Some [Known 1000, Known 64]) None),
                 (1, data_port (Some []) None)]) =
     Inr ((mk_node [(0, data_port (Some [Known 1000, Known 64]) None),
                    (1, data_port (Some []) None)])
            \<lparr>out_shape := Some [Known 64]\<rparr>)
   \<and> EmbeddingBagPackedSum_infer
       (mk_node [(0, data_port (Some [Known 1000, Known 64]) None),
                 (1, data_port (Some [Known 2, Known 3, Known 4]) None)]) =
     Inr ((mk_node [(0, data_port (Some [Known 1000, Known 64]) None),
                    (1, data_port (Some [Known 2, Known 3, Known 4]) None)])
            \<lparr>out_shape := Some [Known 2, Known 64]\<rparr>)
   \<and> EmbeddingBagPackedSum_infer
       (mk_node [(0, data_port (Some [Known 1000, Known 64]) None),
                 (1, data_port None None)]) = Inl TypeError"
  using PackedSum_no_indices_rank_check
          [of "mk_node [(0, data_port (Some [Known 1000, Known 64]) None),
                 (1, data_port (Some []) None)]"
              "data_port (Some [Known 1000, Known 64]) None" "[Known 1000, Known 64]"
              "data_port (Some []) None"]
        PackedSum_no_indices_rank_check
          [of "mk_node [(0, data_port (Some [Known 1000, Known 64]) None),
                 (1, data_port (Some [Known 2, Known 3, Known 4]) None)]"
              "data_port (Some [Known 1000, Known 64]) None" "[Known 1000, Known 64]"
              "data_port (Some [Known 2, Known 3, Known 4]) None"]
        PackedSum_no_indices_rank_check
          [of "mk_node [(0, data_port (Some [Known 1000, Known 64]) None),
                 (1, data_port None None)]"
              "data_port (Some [Known 1000, Known 64]) None" "[Known 1000, Known 64]"
              "data_port None None"]
  by (simp add: example_simps)

text \<open>
  Claim C10, as amended. For each of the three operations, when all its mandatory
  ports are connected and the weights shape is absent, \<^verbatim>\<open>len(weights_shape)\<close> raises
  a \<open>TypeError\<close>: the result is none of the assertion errors and no shape is
  written.
\<close>

theorem absent_weights_shape:
  "(is_connected node 0 \<and> is_connected node 1 \<and> is_connected node 2 \<and>
    in_port node 0 = Inr port0 \<and> get_shape port0 = None \<longrightarrow>
      EmbeddingBagOffsetsSum_infer node = Inl TypeError)
   \<and> (is_connected node 0 \<and> is_connected node 1 \<and>
    in_port node 0 = Inr port0 \<and> get_shape port0 = None \<longrightarrow>
      EmbeddingBagPackedSum_infer node = Inl TypeError)
   \<and> (is_connected node 0 \<and> is_connected node 1 \<and> is_connected node 2 \<and>
    is_connected node 3 \<and>
    in_port node 0 = Inr port0 \<and> get_shape port0 = None \<longrightarrow>
      EmbeddingSegmentsSum_infer node = Inl TypeError)"
  by (simp add: EmbeddingBagOffsetsSum_infer_def EmbeddingBagPackedSum_infer_def
      EmbeddingSegmentsSum_infer_def Let_def offsets_ports_check packed_ports_check
      segments_ports_check)

theorem absent_weights_shape_witness:
  "EmbeddingBagOffsetsSum_infer
       (mk_node [(0, data_port None None),
                 (1, data_port (Some [Known 20]) None),
                 (2, data_port (Some [Known 7]) None)]) = Inl TypeError
   \<and> EmbeddingBagPackedSum_infer
       (mk_node [(0, data_port None None),
                 (1, data_port (Some [Known 4, Known 3]) None)]) = Inl TypeError
   \<and> EmbeddingSegmentsSum_infer
       (mk_node [(0, data_port None None),
                 (1, data_port (Some [Known 10]) None),
                 (2, data_port (Some [Known 10]) None),
                 (3, data_port (Some []) (Some 5))]) = Inl TypeError"
  using absent_weights_shape
          [of "mk_node [(0, data_port None None),
                 (1, data_port (Some [Known 20]) None),
                 (2, data_port (Some [Known 7]) None)]" "data_port None None"]
        absent_weights_shape
          [of "mk_node [(0, data_port None None),
                 (1, data_port (Some [Known 4, Known 3]) None)]" "data_port None None"]
        absent_weights_shape
          [of "mk_node [(0, data_port None None),
                 (1, data_port (Some [Known 10]) None),
                 (2, data_port (Some [Known 10]) None),
                 (3, data_port (Some []) (Some 5))]" "data_port None None"]
  by (simp add: example_simps)

text \<open>
  Claim C10 as stated, for every input whose port 0 is connected and has no shape,
  fails when another mandatory port is disconnected: with port 1 of
  \<open>EmbeddingBagOffsetsSum\<close> disconnected the result is the assertion error
  \<open>MissingRequiredInput\<close>.
\<close>

theorem absent_weights_shape_counterexample:
  "is_connected (mk_node [(0, data_port None None), (1, free_port),
                          (2, data_port (Some [Known 7]) None)]) 0
   \<and> in_port (mk_node [(0, data_port None None), (1, free_port),
                       (2, data_port (Some [Known 7]) None)]) 0 = Inr (data_port None None)
   \<and> get_shape (data_port None None) = None
   \<and> EmbeddingBagOffsetsSum_infer
       (mk_node [(0, data_port None None), (1, free_port),
                 (2, data_port (Some [Known 7]) None)]) =
     Inl (AssertionError (MissingRequiredInput ''EmbeddingBagOffsetsSum'' 3 ''bag'' {|0, 2|}))"
  by (simp add: EmbeddingBagOffsetsSum_infer_def Let_def offsets_ports_check example_simps)

end
